theory Spec2Isabelle
  imports Main "HOL-Library.Word"
begin

section \<open>The editor launcher of ReVCS (native/src/main.cpp)\<close>

text \<open>
  The helper forks, runs \<^verbatim>\<open>vi\<close> on a file in the child and waits in the parent.
  Everything it does is an effect on the operating system, so the model threads an
  explicit \<open>world\<close> through the primitives it calls. What the operating system (and the
  Java runtime) decides, and the program cannot, is read from a \<open>platform\<close> value:
  the result of \<^verbatim>\<open>fork\<close>, whether \<^verbatim>\<open>execlp\<close> fails, in which order processes
  terminate, whether a signal interrupts \<^verbatim>\<open>wait\<close>, whether the string decode fails.
\<close>

subsection \<open>The world a process sees\<close>

text \<open>A child that has not been reaped is running or has terminated with a status.\<close>

datatype pstate = Running | Terminated int

text \<open>The system calls a run makes, in order, with the arguments the kernel receives.\<close>

datatype syscall =
    Sys_fork
  | Sys_execlp string "string list"
  | Sys_wait
  | Sys_exit int

record world =
  children :: "(int \<times> pstate) list"     \<comment> \<open>unreaped children of the calling process\<close>
  environ :: "(string \<times> string) list"    \<comment> \<open>environment variables\<close>
  cerr_unitbuf :: bool                    \<comment> \<open>whether \<^verbatim>\<open>cerr\<close> flushes after every insertion\<close>
  cerr_pending :: string                  \<comment> \<open>bytes inserted into \<^verbatim>\<open>cerr\<close>, not yet flushed\<close>
  stderr_out :: string                    \<comment> \<open>bytes delivered to the standard error stream\<close>
  stdout_out :: string                    \<comment> \<open>bytes delivered to the standard output stream\<close>
  calls :: "syscall list"                 \<comment> \<open>system calls made so far\<close>

record platform =
  fork_result :: int                      \<comment> \<open>what \<^verbatim>\<open>fork()\<close> returns in the process observed\<close>
  exec_fails :: bool                      \<comment> \<open>whether \<^verbatim>\<open>execlp\<close> fails\<close>
  exit_order :: "(int \<times> int) list"       \<comment> \<open>processes that terminate later: pid and status, in time order\<close>
  decode_fails :: bool                    \<comment> \<open>whether \<^verbatim>\<open>GetStringUTFChars\<close> returns NULL\<close>
  wait_interrupted :: bool                \<comment> \<open>whether a signal is caught while the caller is blocked in \<^verbatim>\<open>wait\<close>\<close>

text \<open>
  How a call of \<^verbatim>\<open>open_editor\<close> ends: it returns to its caller, the process
  terminates through \<^verbatim>\<open>exit\<close>, the process image is replaced by the editor,
  the process stays blocked in \<^verbatim>\<open>wait\<close> for ever, or the behaviour is undefined
  by the language.
\<close>

datatype outcome = Returned | Exited int | Replaced | Blocked | Undefined

subsection \<open>C strings\<close>

text \<open>
  A \<^verbatim>\<open>const char*\<close> is modelled by the bytes stored from the pointer on. Whoever reads
  it as a string stops before the first NUL byte. \<^verbatim>\<open>std::string::c_str()\<close> yields the
  bytes of the string followed by a NUL; \<^verbatim>\<open>std::string(const char*)\<close> reads up to
  the first NUL.
\<close>

definition NUL :: char where
  "NUL = CHR 0x00"

definition read_cstring :: "string \<Rightarrow> string" where
  "read_cstring p = takeWhile (\<lambda>c. c \<noteq> NUL) p"

definition c_str :: "string \<Rightarrow> string" where
  "c_str s = s @ [NUL]"

subsection \<open>The primitives\<close>

text \<open>
  \<^verbatim>\<open>fork()\<close>: in the parent a new running child appears in the process table; the child
  starts with no children of its own; on failure nothing changes.
\<close>

definition fork :: "platform \<Rightarrow> world \<Rightarrow> int \<times> world" where
  "fork pf w =
    (let pid = fork_result pf;
         w1 = w\<lparr>calls := calls w @ [Sys_fork]\<rparr>
     in if 0 < pid then (pid, w1\<lparr>children := children w1 @ [(pid, Running)]\<rparr>)
        else if pid = 0 then (pid, w1\<lparr>children := []\<rparr>)
        else (pid, w1))"

text \<open>
  \<^verbatim>\<open>execlp(file, arg0, ..., NULL)\<close>: the kernel reads the file name and every argument
  as a C string. On success the process image is replaced and the call does not return
  (\<open>None\<close>); on failure it returns -1.
\<close>

definition execlp :: "platform \<Rightarrow> string \<Rightarrow> string list \<Rightarrow> world \<Rightarrow> int option \<times> world" where
  "execlp pf file args w =
    (let w1 = w\<lparr>calls := calls w @ [Sys_execlp (read_cstring file) (map read_cstring args)]\<rparr>
     in if exec_fails pf then (Some (- 1), w1) else (None, w1))"

text \<open>
  \<^verbatim>\<open>wait(stat_loc)\<close> (POSIX): if some child has already terminated, it is reaped at once;
  with no children at all the call fails with -1; otherwise the caller blocks. A
  blocked caller that catches a signal returns -1 with no child reaped; otherwise it
  is woken by the first of its running children to terminate, and reaps that one. The
  call names no pid. A caller whose children never terminate stays blocked (\<open>None\<close>).
  The result is the pid and the status of the reaped child.
\<close>

definition wait :: "platform \<Rightarrow> world \<Rightarrow> (int \<times> int) option \<times> world" where
  "wait pf w =
    (let w1 = w\<lparr>calls := calls w @ [Sys_wait]\<rparr>
     in case List.find (\<lambda>(p, s). s \<noteq> Running) (children w1) of
          Some (p, s) \<Rightarrow>
            (Some (p, case s of Terminated st \<Rightarrow> st | Running \<Rightarrow> 0),
             w1\<lparr>children := remove1 (p, s) (children w1)\<rparr>)
        | None \<Rightarrow>
            if children w1 = [] then (Some (- 1, 0), w1)
            else if wait_interrupted pf then (Some (- 1, 0), w1)
            else (case List.find (\<lambda>(p, st). (p, Running) \<in> set (children w1)) (exit_order pf) of
                    None \<Rightarrow> (None, w1)
                  | Some (p, st) \<Rightarrow>
                      (Some (p, st), w1\<lparr>children := remove1 (p, Running) (children w1)\<rparr>)))"

text \<open>
  The stream \<^verbatim>\<open>cerr\<close>: \<^verbatim>\<open>flush\<close> delivers the pending bytes to the standard error
  stream; an insertion appends to the pending bytes, and flushes when the stream is
  unit-buffered (as \<^verbatim>\<open>cerr\<close> is until the program says otherwise); \<^verbatim>\<open>endl\<close>
  inserts a newline and flushes.
\<close>

definition flush :: "world \<Rightarrow> world" where
  "flush w = w\<lparr>stderr_out := stderr_out w @ cerr_pending w, cerr_pending := []\<rparr>"

definition ostream_insert :: "string \<Rightarrow> world \<Rightarrow> world" where
  "ostream_insert s w =
    (let w1 = w\<lparr>cerr_pending := cerr_pending w @ s\<rparr>
     in if cerr_unitbuf w1 then flush w1 else w1)"

definition endl :: "world \<Rightarrow> world" where
  "endl w = flush (ostream_insert [CHR 0x0A] w)"

text \<open>\<^verbatim>\<open>exit(status)\<close> terminates the calling process; it does not return.\<close>

definition exit :: "int \<Rightarrow> world \<Rightarrow> outcome \<times> world" where
  "exit status w = (Exited status, w\<lparr>calls := calls w @ [Sys_exit status]\<rparr>)"

subsection \<open>\<^verbatim>\<open>open_editor\<close>\<close>

definition diagnostic :: string where
  "diagnostic = ''Unable to call editor right now, exiting with status -1.''"

text \<open>The block at the label \<^verbatim>\<open>returnErr\<close>.\<close>

definition returnErr :: "world \<Rightarrow> outcome \<times> world" where
  "returnErr w =
    (let w1 = ostream_insert diagnostic w;
         w2 = endl w1;
         w3 = flush w2
     in exit (- 1) w3)"

definition open_editor :: "platform \<Rightarrow> string \<Rightarrow> world \<Rightarrow> outcome \<times> world" where
  "open_editor pf filename w =
    (let editor = ''vi'';
         (pid, w1) = fork pf w
     in if pid = - 1 then returnErr w1
        else if pid = 0 then
          (case execlp pf (c_str editor) [c_str editor, c_str filename] w1 of
             (None, w2) \<Rightarrow> (Replaced, w2)
           | (Some r, w2) \<Rightarrow> returnErr w2)
        else
          (case wait pf w1 of
             (None, w2) \<Rightarrow> (Blocked, w2)
           | (Some r, w2) \<Rightarrow> (Returned, w2)))"

section \<open>The host bridge\<close>

subsection \<open>Strings of the Java runtime and their encodings\<close>

text \<open>
  A \<^verbatim>\<open>jstring\<close> holds UTF-16 code units. \<^verbatim>\<open>GetStringUTFChars\<close> (Java Native
  Interface) returns a NUL-terminated array of bytes holding the string in modified
  UTF-8, or NULL when it fails. Modified UTF-8 encodes every 16-bit code unit by
  itself: \<^verbatim>\<open>0x0001..0x007F\<close> in one byte, \<^verbatim>\<open>0x0000\<close> and
  \<^verbatim>\<open>0x0080..0x07FF\<close> in two bytes, \<^verbatim>\<open>0x0800..0xFFFF\<close> in three bytes.
\<close>

type_synonym jstring = "16 word list"

definition mutf8_unit :: "16 word \<Rightarrow> string" where
  "mutf8_unit u =
    (let n = unat u
     in if 1 \<le> n \<and> n \<le> 0x7F then [char_of n]
        else if n \<le> 0x7FF then [char_of (0xC0 + n div 64), char_of (0x80 + n mod 64)]
        else [char_of (0xE0 + n div 4096), char_of (0x80 + n div 64 mod 64),
              char_of (0x80 + n mod 64)])"

definition GetStringUTFChars :: "platform \<Rightarrow> jstring \<Rightarrow> string option" where
  "GetStringUTFChars pf js =
    (if decode_fails pf then None else Some (concat (map mutf8_unit js) @ [NUL]))"

text \<open>
  \<^verbatim>\<open>std::string(const char*)\<close>: the bytes before the first NUL. The pointer must not
  be null; the language leaves the behaviour undefined when it is (\<open>None\<close>).
\<close>

definition std_string :: "string option \<Rightarrow> string option" where
  "std_string p = (case p of None \<Rightarrow> None | Some bytes \<Rightarrow> Some (read_cstring bytes))"

text \<open>
  The text a caller means is a sequence of Unicode scalar values. The Java runtime
  holds it in UTF-16 (a code point from \<^verbatim>\<open>0x10000\<close> on as a surrogate pair); as an
  argument of the operating system it is its UTF-8 bytes (RFC 3629).
\<close>

definition scalar_value :: "nat \<Rightarrow> bool" where
  "scalar_value n \<longleftrightarrow> n < 0x110000 \<and> \<not> (0xD800 \<le> n \<and> n \<le> 0xDFFF)"

definition utf16_cp :: "nat \<Rightarrow> 16 word list" where
  "utf16_cp n =
    (if n < 0x10000 then [of_nat n]
     else [of_nat (0xD800 + (n - 0x10000) div 1024), of_nat (0xDC00 + (n - 0x10000) mod 1024)])"

definition utf16 :: "nat list \<Rightarrow> jstring" where
  "utf16 cps = concat (map utf16_cp cps)"

definition utf8_cp :: "nat \<Rightarrow> string" where
  "utf8_cp n =
    (if n \<le> 0x7F then [char_of n]
     else if n \<le> 0x7FF then [char_of (0xC0 + n div 64), char_of (0x80 + n mod 64)]
     else if n \<le> 0xFFFF then
       [char_of (0xE0 + n div 4096), char_of (0x80 + n div 64 mod 64), char_of (0x80 + n mod 64)]
     else [char_of (0xF0 + n div 262144), char_of (0x80 + n div 4096 mod 64),
           char_of (0x80 + n div 64 mod 64), char_of (0x80 + n mod 64)])"

definition utf8 :: "nat list \<Rightarrow> string" where
  "utf8 cps = concat (map utf8_cp cps)"

subsection \<open>The bridged entry point\<close>

text \<open>
  \<^verbatim>\<open>Java_com_dheerajshyam_revcs_Staging_open_1editor(env, thisObj, file_name)\<close>:
  the result of \<^verbatim>\<open>GetStringUTFChars\<close> goes into \<^verbatim>\<open>std::string\<close> unchecked, and
  the string to \<^verbatim>\<open>open_editor\<close>.
\<close>

definition Java_com_dheerajshyam_revcs_Staging_open_1editor ::
    "platform \<Rightarrow> jstring \<Rightarrow> world \<Rightarrow> outcome \<times> world" where
  "Java_com_dheerajshyam_revcs_Staging_open_1editor pf file_name w =
    (let c_file_name = GetStringUTFChars pf file_name
     in case std_string c_file_name of
          None \<Rightarrow> (Undefined, w)
        | Some s \<Rightarrow> open_editor pf s w)"

section \<open>Observations on a run\<close>

text \<open>The system calls a run of \<^verbatim>\<open>open_editor\<close> adds, and the commands it executes.\<close>

definition new_calls :: "platform \<Rightarrow> string \<Rightarrow> world \<Rightarrow> syscall list" where
  "new_calls pf filename w = drop (length (calls w)) (calls (snd (open_editor pf filename w)))"

fun exec_commands :: "syscall list \<Rightarrow> string list" where
  "exec_commands [] = []"
| "exec_commands (Sys_execlp file args # cs) = file # exec_commands cs"
| "exec_commands (c # cs) = exec_commands cs"


text \<open>
  The child \<^verbatim>\<open>wait\<close> finds terminated already, and the first process to terminate
  among given pids.
\<close>

definition first_terminated :: "world \<Rightarrow> (int \<times> pstate) option" where
  "first_terminated w = List.find (\<lambda>(p, s). s \<noteq> Running) (children w)"

definition next_exit :: "platform \<Rightarrow> int list \<Rightarrow> (int \<times> int) option" where
  "next_exit pf pids = List.find (\<lambda>(q, st). q \<in> set pids) (exit_order pf)"

text \<open>What has reached, or is on its way to, the standard streams.\<close>

definition streams :: "world \<Rightarrow> string \<times> string \<times> string" where
  "streams w = (stdout_out w, stderr_out w, cerr_pending w)"

text \<open>A process with no children that has written nothing yet.\<close>

definition fresh_world :: world where
  "fresh_world =
    \<lparr>children = [], environ = [], cerr_unitbuf = True, cerr_pending = [], stderr_out = [],
     stdout_out = [], calls = []\<rparr>"

section \<open>Properties\<close>

subsection \<open>What each path of \<^verbatim>\<open>open_editor\<close> does\<close>

lemma read_cstring_c_str: "NUL \<notin> set s \<Longrightarrow> read_cstring (c_str s) = s"
  by (simp add: read_cstring_def c_str_def takeWhile_append)

lemma read_cstring_vi: "read_cstring (c_str ''vi'') = ''vi''"
  by (simp add: read_cstring_def c_str_def NUL_def)

lemma returnErr_eq:
  "returnErr w =
    (Exited (- 1),
     w\<lparr>cerr_pending := [],
       stderr_out := stderr_out w @ cerr_pending w @ diagnostic @ [CHR 0x0A],
       calls := calls w @ [Sys_exit (- 1)]\<rparr>)"
  by (simp add: returnErr_def ostream_insert_def endl_def flush_def exit_def Let_def)

lemma open_editor_fork_failed:
  "fork_result pf = - 1 \<Longrightarrow>
   open_editor pf filename w =
    (Exited (- 1),
     w\<lparr>cerr_pending := [],
       stderr_out := stderr_out w @ cerr_pending w @ diagnostic @ [CHR 0x0A],
       calls := calls w @ [Sys_fork, Sys_exit (- 1)]\<rparr>)"
  by (simp add: open_editor_def fork_def returnErr_eq)

lemma open_editor_child:
  "fork_result pf = 0 \<Longrightarrow>
   open_editor pf filename w =
    (if exec_fails pf then
       (Exited (- 1),
        w\<lparr>children := [], cerr_pending := [],
          stderr_out := stderr_out w @ cerr_pending w @ diagnostic @ [CHR 0x0A],
          calls := calls w @ [Sys_fork, Sys_execlp ''vi'' [''vi'', read_cstring (c_str filename)],
                             Sys_exit (- 1)]\<rparr>)
     else
       (Replaced,
        w\<lparr>children := [],
          calls := calls w @ [Sys_fork, Sys_execlp ''vi'' [''vi'', read_cstring (c_str filename)]]\<rparr>))"
  by (simp add: open_editor_def fork_def execlp_def returnErr_eq read_cstring_vi Let_def)

lemma open_editor_parent:
  "fork_result pf \<noteq> - 1 \<Longrightarrow> fork_result pf \<noteq> 0 \<Longrightarrow>
   open_editor pf filename w =
     (case wait pf (snd (fork pf w)) of
        (None, w2) \<Rightarrow> (Blocked, w2)
      | (Some r, w2) \<Rightarrow> (Returned, w2))"
  by (simp add: open_editor_def fork_def Let_def)

lemma wait_frame:
  "cerr_pending (snd (wait pf w)) = cerr_pending w \<and>
   stderr_out (snd (wait pf w)) = stderr_out w \<and>
   stdout_out (snd (wait pf w)) = stdout_out w \<and>
   environ (snd (wait pf w)) = environ w \<and>
   calls (snd (wait pf w)) = calls w @ [Sys_wait]"
  by (simp add: wait_def Let_def split: option.splits prod.splits)

lemma fork_frame:
  "cerr_pending (snd (fork pf w)) = cerr_pending w \<and>
   stderr_out (snd (fork pf w)) = stderr_out w \<and>
   stdout_out (snd (fork pf w)) = stdout_out w \<and>
   environ (snd (fork pf w)) = environ w \<and>
   calls (snd (fork pf w)) = calls w @ [Sys_fork]"
  by (simp add: fork_def Let_def)

lemma snd_open_editor_parent:
  assumes "fork_result pf \<noteq> - 1" and "fork_result pf \<noteq> 0"
  shows "snd (open_editor pf filename w) = snd (wait pf (snd (fork pf w)))"
proof (cases "wait pf (snd (fork pf w))")
  case (Pair r w2)
  with assms show ?thesis
    by (cases r) (simp_all add: open_editor_parent)
qed

lemma new_calls_fork_failed:
  "fork_result pf = - 1 \<Longrightarrow> new_calls pf F w = [Sys_fork, Sys_exit (- 1)]"
  by (simp add: new_calls_def open_editor_fork_failed)

lemma new_calls_child:
  "fork_result pf = 0 \<Longrightarrow>
   new_calls pf F w =
     [Sys_fork, Sys_execlp ''vi'' [''vi'', read_cstring (c_str F)]] @
     (if exec_fails pf then [Sys_exit (- 1)] else [])"
  by (simp add: new_calls_def open_editor_child)

lemma new_calls_parent:
  "fork_result pf \<noteq> - 1 \<Longrightarrow> fork_result pf \<noteq> 0 \<Longrightarrow> new_calls pf F w = [Sys_fork, Sys_wait]"
  by (simp add: new_calls_def snd_open_editor_parent wait_frame fork_frame)

subsection \<open>The arguments of the editor\<close>

text \<open>
  C1. In the child (\<^verbatim>\<open>fork\<close> returned 0), for every file name \<open>F\<close> (a string without a
  NUL byte, as every argument of the operating system is), \<^verbatim>\<open>open_editor\<close> calls the
  exec primitive once, on the command \<^verbatim>\<open>vi\<close> with the argument vector
  \<open>[vi, F]\<close>: argv[0] is the editor command, argv[1] is \<open>F\<close> byte for byte (spaces and
  shell metacharacters included), and there is no further argument. The call is the
  process's only one besides \<^verbatim>\<open>fork\<close>, followed by \<^verbatim>\<open>exit\<close> when it fails: no
  shell is run.
\<close>

theorem open_editor_exec_argv:
  assumes "fork_result pf = 0" and "NUL \<notin> set F"
  shows "new_calls pf F w =
           [Sys_fork, Sys_execlp ''vi'' [''vi'', F]] @
           (if exec_fails pf then [Sys_exit (- 1)] else [])"
  using assms by (simp add: new_calls_child read_cstring_c_str)

theorem open_editor_exec_argv_witness:
  "fork_result \<lparr>fork_result = 0, exec_fails = False, exit_order = [], decode_fails = False,
      wait_interrupted = False\<rparr> = 0
   \<and> NUL \<notin> set ''notes with $HOME; spaces.md''
   \<and> new_calls \<lparr>fork_result = 0, exec_fails = False, exit_order = [], decode_fails = False,
      wait_interrupted = False\<rparr>
        ''notes with $HOME; spaces.md'' fresh_world
      = [Sys_fork, Sys_execlp ''vi'' [''vi'', ''notes with $HOME; spaces.md'']]"
  using open_editor_exec_argv
    [of "\<lparr>fork_result = 0, exec_fails = False, exit_order = [], decode_fails = False,
      wait_interrupted = False\<rparr>"
        "''notes with $HOME; spaces.md''" fresh_world]
  by (simp add: NUL_def)

subsection \<open>Fatal paths\<close>

text \<open>
  C3. For every file name, when \<^verbatim>\<open>fork\<close> fails (returns -1), \<^verbatim>\<open>open_editor\<close> does
  not return: the process ends in \<^verbatim>\<open>exit(-1)\<close>. Before that, the standard error
  stream has received the diagnostic followed by a newline, a single line (the
  diagnostic holds no newline), and nothing stays unflushed. The only system calls
  are \<^verbatim>\<open>fork\<close> and \<^verbatim>\<open>exit\<close>: \<^verbatim>\<open>wait\<close> is never called.
\<close>

theorem fork_failure_is_fatal:
  assumes "fork_result pf = - 1"
  shows "fst (open_editor pf F w) = Exited (- 1)
       \<and> stderr_out (snd (open_editor pf F w)) =
           stderr_out w @ cerr_pending w @ diagnostic @ [CHR 0x0A]
       \<and> CHR 0x0A \<notin> set diagnostic
       \<and> cerr_pending (snd (open_editor pf F w)) = []
       \<and> new_calls pf F w = [Sys_fork, Sys_exit (- 1)]
       \<and> Sys_wait \<notin> set (new_calls pf F w)"
  using assms by (simp add: open_editor_fork_failed new_calls_fork_failed diagnostic_def)

theorem fork_failure_is_fatal_witness:
  "fork_result \<lparr>fork_result = - 1, exec_fails = False, exit_order = [], decode_fails = False,
      wait_interrupted = False\<rparr> = - 1
   \<and> open_editor \<lparr>fork_result = - 1, exec_fails = False, exit_order = [], decode_fails = False,
      wait_interrupted = False\<rparr>
        ''/tmp/a.txt'' fresh_world
      = (Exited (- 1),
         fresh_world
           \<lparr>stderr_out := ''Unable to call editor right now, exiting with status -1.'' @ [CHR 0x0A],
            calls := [Sys_fork, Sys_exit (- 1)]\<rparr>)"
  using fork_failure_is_fatal
    [of "\<lparr>fork_result = - 1, exec_fails = False, exit_order = [], decode_fails = False,
      wait_interrupted = False\<rparr>"
        "''/tmp/a.txt''" fresh_world]
  by (simp add: open_editor_fork_failed fresh_world_def diagnostic_def)

text \<open>
  C4. For every file name, when \<^verbatim>\<open>fork\<close> returns 0 (the child) and \<^verbatim>\<open>execlp\<close>
  fails, the child writes the same diagnostic line to the standard error stream,
  leaves nothing unflushed and ends in \<^verbatim>\<open>exit(-1)\<close>: it does not return to the
  caller, and its system calls are \<^verbatim>\<open>fork\<close>, \<^verbatim>\<open>execlp\<close> and \<^verbatim>\<open>exit\<close>,
  never \<^verbatim>\<open>wait\<close>.
\<close>

theorem exec_failure_is_fatal:
  assumes "fork_result pf = 0" and "exec_fails pf"
  shows "fst (open_editor pf F w) = Exited (- 1)
       \<and> stderr_out (snd (open_editor pf F w)) =
           stderr_out w @ cerr_pending w @ diagnostic @ [CHR 0x0A]
       \<and> cerr_pending (snd (open_editor pf F w)) = []
       \<and> children (snd (open_editor pf F w)) = []
       \<and> new_calls pf F w =
           [Sys_fork, Sys_execlp ''vi'' [''vi'', read_cstring (c_str F)], Sys_exit (- 1)]
       \<and> Sys_wait \<notin> set (new_calls pf F w)"
  using assms by (simp add: open_editor_child new_calls_child)

theorem exec_failure_is_fatal_witness:
  "fork_result \<lparr>fork_result = 0, exec_fails = True, exit_order = [], decode_fails = False,
      wait_interrupted = False\<rparr> = 0
   \<and> exec_fails \<lparr>fork_result = 0, exec_fails = True, exit_order = [], decode_fails = False,
      wait_interrupted = False\<rparr>
   \<and> open_editor \<lparr>fork_result = 0, exec_fails = True, exit_order = [], decode_fails = False,
      wait_interrupted = False\<rparr>
        ''/tmp/a.txt'' fresh_world
      = (Exited (- 1),
         fresh_world
           \<lparr>stderr_out := ''Unable to call editor right now, exiting with status -1.'' @ [CHR 0x0A],
            calls := [Sys_fork, Sys_execlp ''vi'' [''vi'', ''/tmp/a.txt''], Sys_exit (- 1)]\<rparr>)"
  using exec_failure_is_fatal
    [of "\<lparr>fork_result = 0, exec_fails = True, exit_order = [], decode_fails = False,
      wait_interrupted = False\<rparr>"
        "''/tmp/a.txt''" fresh_world]
  by (simp add: open_editor_child fresh_world_def diagnostic_def read_cstring_def c_str_def NUL_def)

text \<open>
  C8. A failure of \<^verbatim>\<open>fork\<close> looks the same for every file name: for any two file names,
  any two platforms on which \<^verbatim>\<open>fork\<close> fails and any two starting worlds, both runs
  end in \<^verbatim>\<open>exit(-1)\<close> and both add the same bytes, the diagnostic and a newline, to
  the standard error stream; started in the same world the two runs are equal
  altogether.
\<close>

theorem fork_failure_same_for_all_filenames:
  assumes "fork_result pf1 = - 1" and "fork_result pf2 = - 1"
  shows "fst (open_editor pf1 F1 w1) = Exited (- 1)
       \<and> fst (open_editor pf2 F2 w2) = Exited (- 1)
       \<and> stderr_out (snd (open_editor pf1 F1 w1)) =
           stderr_out w1 @ cerr_pending w1 @ diagnostic @ [CHR 0x0A]
       \<and> stderr_out (snd (open_editor pf2 F2 w2)) =
           stderr_out w2 @ cerr_pending w2 @ diagnostic @ [CHR 0x0A]
       \<and> open_editor pf1 F1 w1 = open_editor pf2 F2 w1"
  using assms by (simp add: open_editor_fork_failed)

theorem fork_failure_same_for_all_filenames_witness:
  "fork_result \<lparr>fork_result = - 1, exec_fails = False, exit_order = [], decode_fails = False,
      wait_interrupted = False\<rparr> = - 1
   \<and> fork_result \<lparr>fork_result = - 1, exec_fails = True, exit_order = [(3, 1)], decode_fails = False,
      wait_interrupted = False\<rparr>
       = - 1
   \<and> open_editor \<lparr>fork_result = - 1, exec_fails = False, exit_order = [], decode_fails = False,
      wait_interrupted = False\<rparr>
        ''/tmp/a.txt'' fresh_world
     = open_editor \<lparr>fork_result = - 1, exec_fails = True, exit_order = [(3, 1)], decode_fails = False,
      wait_interrupted = False\<rparr>
        ''notes with spaces.md'' fresh_world"
  using fork_failure_same_for_all_filenames
    [of "\<lparr>fork_result = - 1, exec_fails = False, exit_order = [], decode_fails = False,
      wait_interrupted = False\<rparr>"
        "\<lparr>fork_result = - 1, exec_fails = True, exit_order = [(3, 1)], decode_fails = False,
      wait_interrupted = False\<rparr>"
        "''/tmp/a.txt''" fresh_world "''notes with spaces.md''" fresh_world]
  by simp

subsection \<open>The editor command and the standard streams\<close>

text \<open>
  C7. Whatever the platform, the file name and the world (its environment variables
  included), the commands a run of \<^verbatim>\<open>open_editor\<close> executes are: the one command
  \<^verbatim>\<open>vi\<close> in the child, none on the other paths. Replacing the environment variables
  changes no system call of the run.
\<close>

theorem editor_is_always_vi:
  "exec_commands (new_calls pf F w) = (if fork_result pf = 0 then [''vi''] else [])
   \<and> new_calls pf F (w\<lparr>environ := e\<rparr>) = new_calls pf F w"
proof -
  consider "fork_result pf = - 1" | "fork_result pf = 0"
    | "fork_result pf \<noteq> - 1" "fork_result pf \<noteq> 0"
    by blast
  then show ?thesis
  proof cases
    case 1
    then show ?thesis by (simp add: new_calls_fork_failed)
  next
    case 2
    then show ?thesis by (simp add: new_calls_child)
  next
    case 3
    then show ?thesis by (simp add: new_calls_parent)
  qed
qed

theorem editor_is_always_vi_witness:
  "exec_commands
     (new_calls \<lparr>fork_result = 0, exec_fails = False, exit_order = [], decode_fails = False,
      wait_interrupted = False\<rparr>
        ''/tmp/a.txt'' (fresh_world\<lparr>environ := [(''EDITOR'', ''emacs'')]\<rparr>)) = [''vi'']"
  using editor_is_always_vi
    [of "\<lparr>fork_result = 0, exec_fails = False, exit_order = [], decode_fails = False,
      wait_interrupted = False\<rparr>"
        "''/tmp/a.txt''" "fresh_world\<lparr>environ := [(''EDITOR'', ''emacs'')]\<rparr>"]
  by simp

text \<open>
  C10. A run of \<^verbatim>\<open>open_editor\<close> leaves the standard output stream, the standard error
  stream and the pending bytes of \<^verbatim>\<open>cerr\<close> as they were exactly when it is not on
  a fatal path, that is, unless \<^verbatim>\<open>fork\<close> failed or \<^verbatim>\<open>execlp\<close> failed in the
  child. In particular nothing is written in the parent after a successful
  \<^verbatim>\<open>fork\<close>, nor in the child whose \<^verbatim>\<open>execlp\<close> succeeds.
\<close>

theorem diagnostic_only_on_fatal_paths:
  "streams (snd (open_editor pf F w)) = streams w
   \<longleftrightarrow> \<not> (fork_result pf = - 1 \<or> (fork_result pf = 0 \<and> exec_fails pf))"
proof -
  consider "fork_result pf = - 1" | "fork_result pf = 0"
    | "fork_result pf \<noteq> - 1" "fork_result pf \<noteq> 0"
    by blast
  then show ?thesis
  proof cases
    case 1
    then show ?thesis by (simp add: open_editor_fork_failed streams_def diagnostic_def)
  next
    case 2
    then show ?thesis by (simp add: open_editor_child streams_def diagnostic_def)
  next
    case 3
    then show ?thesis
      by (simp add: snd_open_editor_parent streams_def wait_frame fork_frame)
  qed
qed

theorem diagnostic_only_on_fatal_paths_witness:
  "streams (snd (open_editor
      \<lparr>fork_result = 42, exec_fails = False, exit_order = [(42, 0)], decode_fails = False,
      wait_interrupted = False\<rparr>
      ''/tmp/a.txt'' fresh_world)) = streams fresh_world
   \<and> streams (snd (open_editor \<lparr>fork_result = 0, exec_fails = False, exit_order = [], decode_fails = False,
      wait_interrupted = False\<rparr>
      ''/tmp/a.txt'' fresh_world)) = streams fresh_world"
  using diagnostic_only_on_fatal_paths
    [of "\<lparr>fork_result = 42, exec_fails = False, exit_order = [(42, 0)], decode_fails = False,
      wait_interrupted = False\<rparr>"
        "''/tmp/a.txt''" fresh_world]
    diagnostic_only_on_fatal_paths
    [of "\<lparr>fork_result = 0, exec_fails = False, exit_order = [], decode_fails = False,
      wait_interrupted = False\<rparr>"
        "''/tmp/a.txt''" fresh_world]
  by simp

subsection \<open>Waiting in the parent\<close>




lemma fork_parent:
  "0 < fork_result pf \<Longrightarrow>
   fork pf w =
     (fork_result pf,
      w\<lparr>calls := calls w @ [Sys_fork], children := children w @ [(fork_result pf, Running)]\<rparr>)"
  by (simp add: fork_def Let_def)

lemma first_terminated_None:
  "first_terminated w = None \<longleftrightarrow> (\<forall>c \<in> set (children w). snd c = Running)"
  by (auto simp add: first_terminated_def find_None_iff)

lemma find_SomeD: "List.find P xs = Some x \<Longrightarrow> x \<in> set xs \<and> P x"
  by (induction xs) (auto split: if_splits)

lemma find_append_eq:
  "List.find P (xs @ ys) = (case List.find P xs of None \<Rightarrow> List.find P ys | Some x \<Rightarrow> Some x)"
  by (induction xs) auto

lemma first_terminated_Some:
  "first_terminated w = Some c \<Longrightarrow> c \<in> set (children w) \<and> snd c \<noteq> Running"
  by (auto simp add: first_terminated_def dest: find_SomeD)

lemma first_terminated_fork:
  "0 < fork_result pf \<Longrightarrow> first_terminated (snd (fork pf w)) = first_terminated w"
  by (simp add: first_terminated_def fork_parent find_append_eq split: option.splits)

lemma wait_reaps_terminated:
  assumes "first_terminated w = Some c"
  shows "fst (wait pf w) \<noteq> None \<and> children (snd (wait pf w)) = remove1 c (children w)"
  using assms by (cases c) (simp add: wait_def first_terminated_def Let_def)

lemma wait_interrupted_blocked:
  assumes "first_terminated w = None" and "children w \<noteq> []" and "wait_interrupted pf"
  shows "wait pf w = (Some (- 1, 0), w\<lparr>calls := calls w @ [Sys_wait]\<rparr>)"
  using assms by (simp add: wait_def first_terminated_def Let_def)

lemma find_running_pids:
  assumes "\<forall>c \<in> set cs. snd c = Running"
  shows "List.find (\<lambda>(p, st). (p, Running) \<in> set cs) xs =
         List.find (\<lambda>(q, st). q \<in> set (map fst cs)) xs"
proof (rule find_cong)
  show "xs = xs" ..
next
  fix x assume "x \<in> set xs"
  from assms show "(case x of (p, st) \<Rightarrow> (p, Running) \<in> set cs) =
        (case x of (q, st) \<Rightarrow> q \<in> set (map fst cs))"
    by (cases x) force
qed

lemma wait_next_exit:
  assumes "first_terminated w = None" and "children w \<noteq> []" and "\<not> wait_interrupted pf"
  shows "wait pf w =
     (case next_exit pf (map fst (children w)) of
        None \<Rightarrow> (None, w\<lparr>calls := calls w @ [Sys_wait]\<rparr>)
      | Some (q, st) \<Rightarrow>
          (Some (q, st),
           w\<lparr>calls := calls w @ [Sys_wait], children := remove1 (q, Running) (children w)\<rparr>))"
proof -
  from assms(1) have run: "\<forall>c \<in> set (children w). snd c = Running"
    by (simp add: first_terminated_None)
  from assms show ?thesis
    by (simp add: wait_def first_terminated_def Let_def next_exit_def find_running_pids [OF run]
          split: option.splits)
qed


lemma next_exit_Some:
  "next_exit pf pids = Some (q, st) \<Longrightarrow> q \<in> set pids \<and> q \<in> fst ` set (exit_order pf)"
  by (force simp add: next_exit_def dest: find_SomeD)




text \<open>
  C9. The parent's \<^verbatim>\<open>wait\<close> names no pid (the system call carries none), so it
  collects whichever child of the caller comes first. Whenever \<^verbatim>\<open>fork\<close> succeeds
  in the parent and the caller has another unreaped child \<open>c\<close> that comes first
  (\<open>c\<close> is the first child found terminated already; or no child has terminated, no
  signal interrupts, and \<open>c\<close> is the first of the caller's children, the new one
  included, to terminate), \<^verbatim>\<open>open_editor\<close> makes its one \<^verbatim>\<open>wait\<close> call, that
  call collects \<open>c\<close> and nothing else, and \<^verbatim>\<open>open_editor\<close> returns while the
  editor child it spawned is still running.
\<close>

theorem wait_is_not_pid_specific:
  assumes "0 < fork_result pf"
      and "first_terminated w = Some c
           \<or> (first_terminated w = None \<and> \<not> wait_interrupted pf
               \<and> next_exit pf (map fst (children w) @ [fork_result pf]) = Some (fst c, st)
               \<and> fst c \<noteq> fork_result pf \<and> snd c = Running)"
  shows "new_calls pf F w = [Sys_fork, Sys_wait]
       \<and> fst (open_editor pf F w) = Returned
       \<and> c \<in> set (children w)
       \<and> children (snd (open_editor pf F w)) =
           remove1 c (children w) @ [(fork_result pf, Running)]
       \<and> (fork_result pf, Running) \<in> set (children (snd (open_editor pf F w)))"
proof -
  let ?p = "fork_result pf"
  let ?w1 = "snd (fork pf w)"
  let ?pids = "map fst (children w) @ [?p]"
  from assms(1) have ne: "?p \<noteq> - 1" "?p \<noteq> 0" by simp_all
  from assms(1) have ch: "children ?w1 = children w @ [(?p, Running)]"
    by (simp add: fork_parent)
  have calls: "new_calls pf F w = [Sys_fork, Sys_wait]"
    using ne by (rule new_calls_parent)
  have "fst (wait pf ?w1) \<noteq> None \<and> c \<in> set (children w)
        \<and> children (snd (wait pf ?w1)) = remove1 c (children w) @ [(?p, Running)]"
    using assms(2)
  proof
    assume a: "first_terminated w = Some c"
    then have c: "c \<in> set (children w)" by (simp add: first_terminated_Some)
    from a assms(1) have "first_terminated ?w1 = Some c"
      by (simp add: first_terminated_fork)
    from wait_reaps_terminated [OF this, of pf] c show ?thesis
      by (simp add: ch remove1_append)
  next
    assume b: "first_terminated w = None \<and> \<not> wait_interrupted pf
               \<and> next_exit pf ?pids = Some (fst c, st) \<and> fst c \<noteq> ?p \<and> snd c = Running"
    then have ft: "first_terminated ?w1 = None"
      using assms(1) by (simp add: first_terminated_fork)
    have nonempty: "children ?w1 \<noteq> []" and pids: "map fst (children ?w1) = ?pids"
      by (simp_all add: ch)
    from b have ni: "\<not> wait_interrupted pf" by simp
    note w = wait_next_exit [OF ft nonempty ni, unfolded pids]
    from b have "fst c \<in> set ?pids" using next_exit_Some [of pf ?pids "fst c" st] by simp
    with b have "fst c \<in> fst ` set (children w)" by auto
    then obtain s where "(fst c, s) \<in> set (children w)" by force
    moreover from b have "\<forall>c \<in> set (children w). snd c = Running"
      by (simp add: first_terminated_None)
    ultimately have "(fst c, Running) \<in> set (children w)" by force
    moreover from b have ceq: "c = (fst c, Running)" by (cases c) simp
    ultimately have c: "c \<in> set (children w)" by simp
    from b w c ceq show ?thesis
      by (simp add: ch remove1_append)
  qed
  then obtain r where r: "fst (wait pf ?w1) = Some r"
    and c: "c \<in> set (children w)"
    and k: "children (snd (wait pf ?w1)) = remove1 c (children w) @ [(?p, Running)]"
    by auto
  with ne calls show ?thesis
    by (cases "wait pf ?w1") (simp add: open_editor_parent)
qed

theorem wait_is_not_pid_specific_witness:
  "0 < fork_result
         \<lparr>fork_result = 42, exec_fails = False, exit_order = [(7, 0), (42, 0)], decode_fails = False,
          wait_interrupted = False\<rparr>
   \<and> first_terminated (fresh_world\<lparr>children := [(7, Running), (9, Running)]\<rparr>) = None
   \<and> next_exit
         \<lparr>fork_result = 42, exec_fails = False, exit_order = [(7, 0), (42, 0)], decode_fails = False,
          wait_interrupted = False\<rparr> [7, 9, 42] = Some (7, 0)
   \<and> open_editor
        \<lparr>fork_result = 42, exec_fails = False, exit_order = [(7, 0), (42, 0)], decode_fails = False,
          wait_interrupted = False\<rparr>
        ''/tmp/a.txt'' (fresh_world\<lparr>children := [(7, Running), (9, Running)]\<rparr>)
      = (Returned,
         fresh_world\<lparr>children := [(9, Running), (42, Running)], calls := [Sys_fork, Sys_wait]\<rparr>)"
  using wait_is_not_pid_specific
    [of "\<lparr>fork_result = 42, exec_fails = False, exit_order = [(7, 0), (42, 0)], decode_fails = False,
          wait_interrupted = False\<rparr>"
        "fresh_world\<lparr>children := [(7, Running), (9, Running)]\<rparr>" "(7, Running)" 0 "''/tmp/a.txt''"]
  by (simp add: fresh_world_def first_terminated_def next_exit_def open_editor_def fork_def
        wait_def Let_def)

subsection \<open>The host bridge\<close>

lemma char_of_not_NUL: "0 < k \<Longrightarrow> k < 256 \<Longrightarrow> NUL \<noteq> char_of (k::nat)"
  using char_of_eq_iff [of k NUL] by (auto simp add: NUL_def take_bit_eq_mod)

lemma unat_jchar: "n \<le> 0xFFFF \<Longrightarrow> unat (of_nat n :: 16 word) = n"
  by (simp add: unat_of_nat)

text \<open>On a code unit that is not zero, modified UTF-8 is UTF-8 of that number.\<close>

lemma mutf8_unit_bmp:
  "1 \<le> n \<Longrightarrow> n \<le> 0xFFFF \<Longrightarrow> mutf8_unit (of_nat n) = utf8_cp n"
  by (simp add: mutf8_unit_def utf8_cp_def unat_jchar Let_def)

lemma utf8_cp_no_NUL:
  assumes "1 \<le> n" and "n \<le> 0xFFFF"
  shows "NUL \<notin> set (utf8_cp n)"
proof -
  have a: "n \<le> 0x7FF \<Longrightarrow> n div 64 < 32" by simp
  have b: "n div 4096 < 16" using assms(2) by simp
  have c: "n mod 64 < 64" "n div 64 mod 64 < 64" by simp_all
  show ?thesis
    using assms a b c by (auto simp add: utf8_cp_def char_of_not_NUL)
qed

lemma utf8_cp_zero: "utf8_cp 0 = [NUL]"
  by (simp add: utf8_cp_def NUL_def char_of_eq_iff)

lemma utf8_NUL_free: "NUL \<notin> set (utf8 S) \<Longrightarrow> 0 \<notin> set S"
  by (auto simp add: utf8_def utf8_cp_zero)

lemma mutf8_utf16_bmp:
  assumes "\<forall>cp \<in> set S. 1 \<le> cp \<and> cp \<le> 0xFFFF"
  shows "concat (map mutf8_unit (utf16 S)) = utf8 S"
  using assms
  by (induction S) (simp_all add: utf16_def utf8_def utf16_cp_def mutf8_unit_bmp)

lemma read_cstring_terminated: "NUL \<notin> set s \<Longrightarrow> read_cstring (s @ [NUL]) = s"
  by (simp add: read_cstring_def takeWhile_append)

lemma bridge_decoded:
  "\<not> decode_fails pf \<Longrightarrow> NUL \<notin> set (concat (map mutf8_unit js)) \<Longrightarrow>
   Java_com_dheerajshyam_revcs_Staging_open_1editor pf js w =
     open_editor pf (concat (map mutf8_unit js)) w"
  by (simp add: Java_com_dheerajshyam_revcs_Staging_open_1editor_def GetStringUTFChars_def
        std_string_def read_cstring_terminated)

lemma bridge_decode_failed:
  "decode_fails pf \<Longrightarrow>
   Java_com_dheerajshyam_revcs_Staging_open_1editor pf js w = (Undefined, w)"
  by (simp add: Java_com_dheerajshyam_revcs_Staging_open_1editor_def GetStringUTFChars_def
        std_string_def)

text \<open>The code point U+1F600 in the three encodings, and a file name with an accented letter.\<close>

lemma utf8_U1F600: "utf8 [0x1F600] = [CHR 0xF0, CHR 0x9F, CHR 0x98, CHR 0x80]"
  by (simp add: utf8_def utf8_cp_def char_of_eq_iff take_bit_eq_mod)

lemma utf16_U1F600: "utf16 [0x1F600] = [0xD83D, 0xDE00]"
  by (simp add: utf16_def utf16_cp_def)

lemma mutf8_U1F600:
  "concat (map mutf8_unit [0xD83D, 0xDE00]) =
     [CHR 0xED, CHR 0xA0, CHR 0xBD, CHR 0xED, CHR 0xB8, CHR 0x80]"
  by (simp add: mutf8_unit_def char_of_eq_iff take_bit_eq_mod)

lemma utf8_hello:
  "utf8 [0x68, 0xE9, 0x6C, 0x6C, 0x6F, 0x2E, 0x74, 0x78, 0x74] =
     ''h'' @ [CHR 0xC3, CHR 0xA9] @ ''llo.txt''"
  by (simp add: utf8_def utf8_cp_def char_of_eq_iff take_bit_eq_mod)

text \<open>
  C5, as stated: for every text \<open>S\<close> whose UTF-8 bytes are a valid argument of the
  operating system (no NUL byte), the bridge called on the Java string of \<open>S\<close> hands
  the UTF-8 bytes of \<open>S\<close> to the exec primitive as argv[1]. This fails for a code point
  outside the Basic Multilingual Plane: U+1F600 is \<^verbatim>\<open>F0 9F 98 80\<close> in UTF-8, its Java
  string is the surrogate pair \<^verbatim>\<open>D83D DE00\<close>, \<^verbatim>\<open>GetStringUTFChars\<close> encodes each
  surrogate by itself, and argv[1] is the six bytes \<^verbatim>\<open>ED A0 BD ED B8 80\<close>.
\<close>

theorem bridge_round_trip_counterexample:
  "scalar_value 0x1F600
   \<and> NUL \<notin> set (utf8 [0x1F600])
   \<and> utf8 [0x1F600] = [CHR 0xF0, CHR 0x9F, CHR 0x98, CHR 0x80]
   \<and> calls (snd (Java_com_dheerajshyam_revcs_Staging_open_1editor
        \<lparr>fork_result = 0, exec_fails = False, exit_order = [], decode_fails = False,
      wait_interrupted = False\<rparr>
        (utf16 [0x1F600]) fresh_world))
      = [Sys_fork,
         Sys_execlp ''vi'' [''vi'', [CHR 0xED, CHR 0xA0, CHR 0xBD, CHR 0xED, CHR 0xB8, CHR 0x80]]]"
proof -
  have nul: "NUL \<notin> set (concat (map mutf8_unit [0xD83D, 0xDE00]))"
    by (simp only: mutf8_U1F600) (simp add: NUL_def)
  have "Java_com_dheerajshyam_revcs_Staging_open_1editor
        \<lparr>fork_result = 0, exec_fails = False, exit_order = [], decode_fails = False,
      wait_interrupted = False\<rparr>
        (utf16 [0x1F600]) fresh_world
      = open_editor \<lparr>fork_result = 0, exec_fails = False, exit_order = [], decode_fails = False,
      wait_interrupted = False\<rparr>
          (concat (map mutf8_unit [0xD83D, 0xDE00])) fresh_world"
    unfolding utf16_U1F600 using nul by (intro bridge_decoded) simp
  then have "Java_com_dheerajshyam_revcs_Staging_open_1editor
        \<lparr>fork_result = 0, exec_fails = False, exit_order = [], decode_fails = False,
      wait_interrupted = False\<rparr>
        (utf16 [0x1F600]) fresh_world
      = open_editor \<lparr>fork_result = 0, exec_fails = False, exit_order = [], decode_fails = False,
      wait_interrupted = False\<rparr>
          [CHR 0xED, CHR 0xA0, CHR 0xBD, CHR 0xED, CHR 0xB8, CHR 0x80] fresh_world"
    by (simp only: mutf8_U1F600)
  then show ?thesis
    by (simp add: open_editor_child utf8_U1F600 scalar_value_def NUL_def fresh_world_def
          read_cstring_def c_str_def)
qed

text \<open>
  C5, amended: for every text \<open>S\<close> of code points up to U+FFFF whose UTF-8 bytes hold
  no NUL byte, when the decode succeeds, the bridge called on the Java string of \<open>S\<close>
  hands the UTF-8 bytes of \<open>S\<close>, byte for byte, to the exec primitive as argv[1]
  (in the child, where the exec primitive is called).
\<close>

theorem bridge_passes_bmp_text:
  assumes "\<forall>cp \<in> set S. scalar_value cp" and "NUL \<notin> set (utf8 S)"
      and "\<forall>cp \<in> set S. cp \<le> 0xFFFF"
      and "\<not> decode_fails pf" and "fork_result pf = 0"
  shows "calls (snd (Java_com_dheerajshyam_revcs_Staging_open_1editor pf (utf16 S) w)) =
           calls w @ [Sys_fork, Sys_execlp ''vi'' [''vi'', utf8 S]] @
           (if exec_fails pf then [Sys_exit (- 1)] else [])"
proof -
  from assms(2) have "0 \<notin> set S" by (rule utf8_NUL_free)
  with assms(3) have bmp: "\<forall>cp \<in> set S. 1 \<le> cp \<and> cp \<le> 0xFFFF"
    by (metis One_nat_def Suc_leI neq0_conv)
  then have enc: "concat (map mutf8_unit (utf16 S)) = utf8 S"
    by (rule mutf8_utf16_bmp)
  with assms(2,4) have "Java_com_dheerajshyam_revcs_Staging_open_1editor pf (utf16 S) w =
      open_editor pf (utf8 S) w"
    by (simp add: bridge_decoded)
  with assms(2,5) show ?thesis
    by (simp add: open_editor_child read_cstring_c_str)
qed

theorem bridge_passes_bmp_text_witness:
  "list_all scalar_value [0x68, 0xE9, 0x6C, 0x6C, 0x6F, 0x2E, 0x74, 0x78, 0x74]
   \<and> NUL \<notin> set (utf8 [0x68, 0xE9, 0x6C, 0x6C, 0x6F, 0x2E, 0x74, 0x78, 0x74])
   \<and> list_all (\<lambda>cp. cp \<le> 0xFFFF) ([0x68, 0xE9, 0x6C, 0x6C, 0x6F, 0x2E, 0x74, 0x78, 0x74] :: nat list)
   \<and> \<not> decode_fails \<lparr>fork_result = 0, exec_fails = False, exit_order = [], decode_fails = False,
      wait_interrupted = False\<rparr>
   \<and> fork_result \<lparr>fork_result = 0, exec_fails = False, exit_order = [], decode_fails = False,
      wait_interrupted = False\<rparr> = 0
   \<and> calls (snd (Java_com_dheerajshyam_revcs_Staging_open_1editor
        \<lparr>fork_result = 0, exec_fails = False, exit_order = [], decode_fails = False,
      wait_interrupted = False\<rparr>
        (utf16 [0x68, 0xE9, 0x6C, 0x6C, 0x6F, 0x2E, 0x74, 0x78, 0x74]) fresh_world))
      = [Sys_fork, Sys_execlp ''vi'' [''vi'', ''h'' @ [CHR 0xC3, CHR 0xA9] @ ''llo.txt'']]"
  using bridge_passes_bmp_text
    [of "[0x68, 0xE9, 0x6C, 0x6C, 0x6F, 0x2E, 0x74, 0x78, 0x74]"
        "\<lparr>fork_result = 0, exec_fails = False, exit_order = [], decode_fails = False,
      wait_interrupted = False\<rparr>" fresh_world]
  by (simp add: utf8_hello scalar_value_def NUL_def fresh_world_def)

text \<open>
  C6. When \<^verbatim>\<open>GetStringUTFChars\<close> returns NULL, the bridge should write a diagnostic
  to the standard error stream and terminate the process with a non-zero status.
  The code does not test the pointer: it constructs a \<^verbatim>\<open>std::string\<close> from the
  null pointer, which the language leaves undefined. At that point nothing has been
  written and no system call has been made.
\<close>

theorem bridge_null_decode_unchecked:
  "Java_com_dheerajshyam_revcs_Staging_open_1editor
     \<lparr>fork_result = 42, exec_fails = False, exit_order = [(42, 0)], decode_fails = True,
      wait_interrupted = False\<rparr>
     (utf16 [0x61, 0x2E, 0x74, 0x78, 0x74]) fresh_world
   = (Undefined, fresh_world)"
  by (simp add: bridge_decode_failed)

end
